theory Spec2Isabelle
  imports Complex_Main
begin

section \<open>JavaScript values\<close>

text \<open>
  The handlers of \<^verbatim>\<open>server.js\<close> read their inputs from \<^verbatim>\<open>req.body\<close>, which the JSON
  and form parsers fill with strings, numbers, booleans and \<^verbatim>\<open>null\<close>; a field that was
  not sent reads as \<^verbatim>\<open>undefined\<close>. Those primitive values are the values of the model
  (a field holding an array or a nested object is outside it).

  A number is \<^verbatim>\<open>NaN\<close>, an infinity, or a finite value, read as the rational it denotes
  (every finite double is one); the sign of zero is not modelled. Arithmetic rounds to
  binary64 (\<open>round64\<close> below); \<^verbatim>\<open>Number\<close> applied to a string gives the exact value of
  the literal.
\<close>

datatype jsnum = NaN | PosInf | NegInf | Fin rat

datatype jsval = Undefined | Null | Bool bool | Num jsnum | Str string

text \<open>\<^verbatim>\<open>ToBoolean\<close>: what \<^verbatim>\<open>!x\<close> and \<^verbatim>\<open>x || y\<close> test.\<close>

fun truthy :: "jsval \<Rightarrow> bool" where
  "truthy Undefined = False"
| "truthy Null = False"
| "truthy (Bool b) = b"
| "truthy (Num n) = (n \<noteq> NaN \<and> n \<noteq> Fin 0)"
| "truthy (Str s) = (s \<noteq> [])"

text \<open>\<^verbatim>\<open>a || b\<close>: the left operand when it is truthy, the right one otherwise.\<close>

definition or_js :: "jsval \<Rightarrow> jsval \<Rightarrow> jsval" where
  "or_js a b = (if truthy a then a else b)"

text \<open>A request body: the value of each named field, \<^verbatim>\<open>undefined\<close> when it is absent.\<close>

type_synonym body = "string \<Rightarrow> jsval"

subsection \<open>Decimal digits\<close>

definition is_digit :: "char \<Rightarrow> bool" where
  "is_digit c = (c \<in> set ''0123456789'')"

text \<open>The character of a digit, and the value of a decimal or hexadecimal digit.\<close>

definition digit_char :: "nat \<Rightarrow> char" where
  "digit_char d = ''0123456789'' ! (d mod 10)"

definition digit_val :: "char \<Rightarrow> nat" where
  "digit_val c =
     (if is_digit c then of_char c - 48
      else if c \<in> set ''abcdef'' then of_char c - 87
      else if c \<in> set ''ABCDEF'' then of_char c - 55
      else 0)"

text \<open>The value of a digit string in a base, most significant digit first.\<close>

definition digits_val :: "nat \<Rightarrow> string \<Rightarrow> nat" where
  "digits_val base s = foldl (\<lambda>a c. base * a + digit_val c) 0 s"

text \<open>
  \<^verbatim>\<open>String(n)\<close> for an integer, as a template literal interpolates it: the decimal
  digits, after a minus sign when it is negative.
\<close>

fun show_nat :: "nat \<Rightarrow> string" where
  "show_nat n =
     (if n < 10 then [digit_char n] else show_nat (n div 10) @ [digit_char (n mod 10)])"

declare show_nat.simps [simp del]

definition show_int :: "int \<Rightarrow> string" where
  "show_int i = (if i < 0 then CHR ''-'' # show_nat (nat (- i)) else show_nat (nat i))"

subsection \<open>\<^verbatim>\<open>Number(v)\<close>\<close>

text \<open>
  \<^verbatim>\<open>Number\<close> applied to a string follows the grammar of \<^verbatim>\<open>StringNumericLiteral\<close>:
  white space around the literal is dropped, the empty string is \<open>0\<close>, and the literal
  is \<^verbatim>\<open>Infinity\<close> or a decimal number (digits, an optional fraction and an optional
  exponent), with an optional sign, or an unsigned hexadecimal, octal or binary integer.
  Any other string is \<^verbatim>\<open>NaN\<close>. (White space is the ASCII white space here.)
\<close>

definition is_ws :: "char \<Rightarrow> bool" where
  "is_ws c = (c \<in> {CHR 0x09, CHR 0x0A, CHR 0x0B, CHR 0x0C, CHR 0x0D, CHR '' ''})"

definition trim :: "string \<Rightarrow> string" where
  "trim s = rev (dropWhile is_ws (rev (dropWhile is_ws s)))"

text \<open>An exponent part after the \<^verbatim>\<open>e\<close>: digits with an optional sign.\<close>

definition signed_integer :: "string \<Rightarrow> int option" where
  "signed_integer s =
     (let (neg, ds) = (case s of
                         c # t \<Rightarrow> if c = CHR ''-'' then (True, t)
                                  else if c = CHR ''+'' then (False, t) else (False, s)
                       | [] \<Rightarrow> (False, s))
      in if ds = [] \<or> \<not> list_all is_digit ds then None
         else Some (if neg then - int (digits_val 10 ds) else int (digits_val 10 ds)))"

definition exponent_part :: "string \<Rightarrow> int option" where
  "exponent_part s =
     (case s of
        [] \<Rightarrow> Some 0
      | c # t \<Rightarrow> if c \<in> set ''eE'' then signed_integer t else None)"

definition pow10 :: "int \<Rightarrow> rat" where
  "pow10 e = (if e < 0 then 1 / 10 ^ nat (- e) else 10 ^ nat e)"

definition unsigned_decimal :: "string \<Rightarrow> jsnum" where
  "unsigned_decimal s =
     (if s = ''Infinity'' then PosInf
      else
        let ip = takeWhile is_digit s;
            r1 = dropWhile is_digit s;
            (fp, r2) = (case r1 of
                          c # t \<Rightarrow> if c = CHR ''.''
                                   then (takeWhile is_digit t, dropWhile is_digit t)
                                   else ([], r1)
                        | [] \<Rightarrow> ([], r1))
        in if ip = [] \<and> fp = [] then NaN
           else (case exponent_part r2 of
                   None \<Rightarrow> NaN
                 | Some e \<Rightarrow>
                     Fin ((of_nat (digits_val 10 ip)
                           + of_nat (digits_val 10 fp) / 10 ^ length fp) * pow10 e)))"

definition negate :: "jsnum \<Rightarrow> jsnum" where
  "negate n = (case n of NaN \<Rightarrow> NaN | PosInf \<Rightarrow> NegInf | NegInf \<Rightarrow> PosInf | Fin q \<Rightarrow> Fin (- q))"

definition radix_literal :: "nat \<Rightarrow> string \<Rightarrow> string \<Rightarrow> jsnum" where
  "radix_literal base allowed ds =
     (if ds \<noteq> [] \<and> list_all (\<lambda>c. c \<in> set allowed) ds
      then Fin (of_nat (digits_val base ds)) else NaN)"

definition StringToNumber :: "string \<Rightarrow> jsnum" where
  "StringToNumber s =
     (let t = trim s in
      case t of
        [] \<Rightarrow> Fin 0
      | c # u \<Rightarrow>
          if c = CHR ''-'' then negate (unsigned_decimal u)
          else if c = CHR ''+'' then unsigned_decimal u
          else if c = CHR ''0'' \<and> u \<noteq> [] \<and> hd u \<in> set ''xX''
            then radix_literal 16 ''0123456789abcdefABCDEF'' (tl u)
          else if c = CHR ''0'' \<and> u \<noteq> [] \<and> hd u \<in> set ''oO''
            then radix_literal 8 ''01234567'' (tl u)
          else if c = CHR ''0'' \<and> u \<noteq> [] \<and> hd u \<in> set ''bB''
            then radix_literal 2 ''01'' (tl u)
          else unsigned_decimal t)"

fun Number :: "jsval \<Rightarrow> jsnum" where
  "Number Undefined = NaN"
| "Number Null = Fin 0"
| "Number (Bool b) = (if b then Fin 1 else Fin 0)"
| "Number (Num n) = n"
| "Number (Str s) = StringToNumber s"

section \<open>Binary64 arithmetic\<close>

text \<open>
  An arithmetic operation on numbers returns the exact result rounded to the nearest
  binary64 value, a tie going to the value with an even significand. The binary64 values
  of one binade \<open>[2\<^sup>e, 2\<^sup>e\<^sup>+\<^sup>1)\<close> are the multiples of \<open>2\<^sup>e\<^sup>-\<^sup>5\<^sup>2\<close>, for \<open>e\<close> from \<open>-1022\<close> to
  \<open>1023\<close>; below \<open>2\<^sup>-\<^sup>1\<^sup>0\<^sup>2\<^sup>2\<close> (the subnormal values) they are the multiples of \<open>2\<^sup>-\<^sup>1\<^sup>0\<^sup>7\<^sup>4\<close>.
  \<open>exponent64 x\<close> is that \<open>e\<close>, found by counting the powers of two that are at most
  \<open>\<bar>x\<bar>\<close>. (A result of magnitude \<open>2\<^sup>1\<^sup>0\<^sup>2\<^sup>4\<close> or more, which is an infinity, does not arise
  from the values rounded here, all below \<open>10\<^sup>8\<close>.)
\<close>

definition round_half_even :: "rat \<Rightarrow> int" where
  "round_half_even y =
     (let f = \<lfloor>y\<rfloor>; d = y - of_int f
      in if d < 1 / 2 then f else if 1 / 2 < d then f + 1 else if even f then f else f + 1)"

definition exponent64 :: "rat \<Rightarrow> int" where
  "exponent64 x =
     int (length (filter (\<lambda>k. 2 powi (int k - 1021) \<le> \<bar>x\<bar>) [0..<2045])) - 1022"

definition round64 :: "rat \<Rightarrow> rat" where
  "round64 x =
     (let q = 2 powi (exponent64 x - 52)
      in of_int (round_half_even (x / q)) * q)"

section \<open>Pass identifiers\<close>

text \<open>
  \<^verbatim>\<open>generateUniquePassId\<close>, with the binary64 value \<open>r\<close> that \<^verbatim>\<open>Math.random()\<close> returned:
  \<^verbatim>\<open>Math.floor(10000000 + r * 90000000)\<close> after the prefix \<^verbatim>\<open>TSRTC-\<close>. The product is
  rounded, then the sum is rounded; the floor of a binary64 value is exact.
\<close>

definition generateUniquePassId :: "rat \<Rightarrow> string" where
  "generateUniquePassId r =
     (let randomNum = \<lfloor>round64 (10000000 + round64 (r * 90000000))\<rfloor>
      in ''TSRTC-'' @ show_int randomNum)"

section \<open>The document store\<close>

text \<open>
  A record reference is the store's \<^verbatim>\<open>ObjectId\<close>. A collection holds its documents in
  insertion order, each under its \<^verbatim>\<open>_id\<close>.
\<close>

datatype objectid = Oid string

type_synonym 'd collection = "(objectid \<times> 'd) list"

datatype js_error = TypeError | BSONError | MongoError | QRCodeError

record age_doc =
  years :: jsval
  months :: jsval
  days :: jsval

record applicant =
  passId :: string
  qrCode :: string
  name :: jsval
  fatherName :: jsval
  dob :: jsval
  gender :: jsval
  age :: age_doc
  aadhar :: jsval
  phone :: jsval
  whatsapp :: jsval
  number :: jsval
  email :: jsval
  photo :: string
  aadharFile :: string
  address :: jsval
  district :: jsval
  mandal :: jsval
  village :: jsval
  pincode :: jsval
  city :: jsval
  passType :: jsval
  paymentMode :: string
  deliveryMode :: string
  counter :: jsval
  createdAt :: nat

record ticket =
  applicantId :: objectid
  source :: jsval
  destination :: jsval
  paymentType :: jsval
  amount :: jsnum
  bookedAt :: nat

text \<open>
  What a request takes from outside the program: the value of \<^verbatim>\<open>Math.random()\<close>, the
  QR encoder (\<open>None\<close> when its promise rejects), the driver's \<^verbatim>\<open>new ObjectId(x)\<close>
  (\<open>None\<close> when it throws on a malformed argument), the \<^verbatim>\<open>_id\<close> the driver generates
  for an inserted document, the clock, and whether the store answers.
\<close>

record env =
  random :: rat
  toDataURL :: "string \<Rightarrow> string option"
  new_ObjectId :: "jsval \<Rightarrow> objectid option"
  generated_id :: objectid
  now :: nat
  store_up :: bool

text \<open>
  \<^verbatim>\<open>let applications, tickets;\<close> the two collection handles, \<^verbatim>\<open>undefined\<close> (\<open>None\<close>)
  until \<^verbatim>\<open>connectDB\<close> has set them.
\<close>

record server_state =
  applications :: "applicant collection option"
  tickets :: "ticket collection option"

text \<open>
  \<^verbatim>\<open>insertOne\<close> appends the document under a generated \<^verbatim>\<open>_id\<close>; the store rejects an
  \<^verbatim>\<open>_id\<close> it already holds. \<^verbatim>\<open>findOne\<close> returns the first document that matches.
\<close>

definition insertOne :: "env \<Rightarrow> 'd collection \<Rightarrow> 'd \<Rightarrow> js_error + (objectid \<times> 'd collection)" where
  "insertOne e c d =
     (if \<not> store_up e \<or> generated_id e \<in> fst ` set c then Inl MongoError
      else Inr (generated_id e, c @ [(generated_id e, d)]))"

definition findOne ::
  "env \<Rightarrow> 'd collection \<Rightarrow> (objectid \<times> 'd \<Rightarrow> bool) \<Rightarrow> js_error + (objectid \<times> 'd) option" where
  "findOne e c q = (if store_up e then Inr (find q c) else Inl MongoError)"

section \<open>The request handlers\<close>

text \<open>
  A response: the HTTP status (200 unless \<^verbatim>\<open>res.status\<close> sets it) and the JSON body.
  Every handler runs in a \<^verbatim>\<open>try\<close> whose \<^verbatim>\<open>catch\<close> answers with status 500, so each thing
  that throws is a branch that returns that response: a call on a collection handle that
  is still \<^verbatim>\<open>undefined\<close> (a \<^verbatim>\<open>TypeError\<close>), \<^verbatim>\<open>new ObjectId\<close> on a malformed argument,
  a store call that fails, a QR encoding that fails. Only \<^verbatim>\<open>POST /apply\<close> tests its handle
  first.
\<close>

datatype 'b response = Res (status: nat) (json: 'b)

subsection \<open>\<^verbatim>\<open>POST /apply\<close>\<close>

datatype apply_json =
    DbNotConnected
  | ApplicationStored objectid string string
  | ApplyError js_error

text \<open>The uploaded files: the stored file name of the first file of each field.\<close>

type_synonym files = "string \<Rightarrow> string option"

definition upload_path :: "files \<Rightarrow> string \<Rightarrow> string" where
  "upload_path f field =
     (case f field of Some filename \<Rightarrow> ''/uploads/'' @ filename | None \<Rightarrow> [])"

definition applicant_doc :: "env \<Rightarrow> body \<Rightarrow> files \<Rightarrow> string \<Rightarrow> string \<Rightarrow> applicant" where
  "applicant_doc e b f pid qrDataUrl =
     (let phoneNumber = or_js (or_js (b ''phone'') (b ''whatsapp'')) (b ''number'')
      in \<lparr> passId = pid,
           qrCode = qrDataUrl,
           name = b ''name'',
           fatherName = b ''fatherName'',
           dob = b ''dob'',
           gender = b ''gender'',
           age = \<lparr> years = b ''ageYears'', months = b ''ageMonths'', days = b ''ageDays'' \<rparr>,
           aadhar = b ''aadhar'',
           phone = phoneNumber,
           whatsapp = or_js (b ''whatsapp'') phoneNumber,
           number = or_js (b ''number'') phoneNumber,
           email = b ''email'',
           photo = upload_path f ''photo'',
           aadharFile = upload_path f ''aadharFile'',
           address = b ''address'',
           district = b ''district'',
           mandal = b ''mandal'',
           village = b ''village'',
           pincode = b ''pincode'',
           city = b ''city'',
           passType = b ''passType'',
           paymentMode = ''FREE SCHEME'',
           deliveryMode = ''Bus Pass Counter'',
           counter = b ''counter'',
           createdAt = now e \<rparr>)"

definition post_apply ::
  "env \<Rightarrow> server_state \<Rightarrow> body \<Rightarrow> files \<Rightarrow> apply_json response \<times> server_state" where
  "post_apply e st b f =
     (case applications st of
        None \<Rightarrow> (Res 500 DbNotConnected, st)
      | Some apps \<Rightarrow>
          let pid = generateUniquePassId (random e) in
          (case toDataURL e pid of
             None \<Rightarrow> (Res 500 (ApplyError QRCodeError), st)
           | Some qrDataUrl \<Rightarrow>
               (case insertOne e apps (applicant_doc e b f pid qrDataUrl) of
                  Inl err \<Rightarrow> (Res 500 (ApplyError err), st)
                | Inr (insertedId, apps') \<Rightarrow>
                    (Res 200 (ApplicationStored insertedId pid qrDataUrl),
                     st\<lparr>applications := Some apps'\<rparr>))))"

subsection \<open>\<^verbatim>\<open>GET /verify/:phone\<close>\<close>

datatype verify_json = VerifySuccess objectid | VerifyFailure

definition phone_query :: "string \<Rightarrow> objectid \<times> applicant \<Rightarrow> bool" where
  "phone_query p d =
     (phone (snd d) = Str p \<or> whatsapp (snd d) = Str p \<or> number (snd d) = Str p)"

definition get_verify :: "env \<Rightarrow> server_state \<Rightarrow> string \<Rightarrow> verify_json response" where
  "get_verify e st p =
     (case applications st of
        None \<Rightarrow> Res 500 VerifyFailure
      | Some apps \<Rightarrow>
          (case findOne e apps (phone_query p) of
             Inl err \<Rightarrow> Res 500 VerifyFailure
           | Inr None \<Rightarrow> Res 200 VerifyFailure
           | Inr (Some a) \<Rightarrow> Res 200 (VerifySuccess (fst a))))"

subsection \<open>\<^verbatim>\<open>GET /applicant/:id\<close>\<close>

datatype applicant_json = ApplicantSuccess "objectid \<times> applicant" | ApplicantFailure

definition get_applicant :: "env \<Rightarrow> server_state \<Rightarrow> string \<Rightarrow> applicant_json response" where
  "get_applicant e st ref =
     (case applications st of
        None \<Rightarrow> Res 500 ApplicantFailure
      | Some apps \<Rightarrow>
          (case new_ObjectId e (Str ref) of
             None \<Rightarrow> Res 500 ApplicantFailure
           | Some oid \<Rightarrow>
               (case findOne e apps (\<lambda>d. fst d = oid) of
                  Inl err \<Rightarrow> Res 500 ApplicantFailure
                | Inr None \<Rightarrow> Res 200 ApplicantFailure
                | Inr (Some a) \<Rightarrow> Res 200 (ApplicantSuccess a))))"

subsection \<open>\<^verbatim>\<open>GET /getApplicant/:passId\<close>\<close>

datatype getApplicant_json = Applicant "objectid \<times> applicant" | NoSuccess

definition get_getApplicant :: "env \<Rightarrow> server_state \<Rightarrow> string \<Rightarrow> getApplicant_json response" where
  "get_getApplicant e st pid =
     (case applications st of
        None \<Rightarrow> Res 500 NoSuccess
      | Some apps \<Rightarrow>
          (case findOne e apps (\<lambda>d. passId (snd d) = pid) of
             Inl err \<Rightarrow> Res 500 NoSuccess
           | Inr None \<Rightarrow> Res 404 NoSuccess
           | Inr (Some a) \<Rightarrow> Res 200 (Applicant a)))"

subsection \<open>\<^verbatim>\<open>POST /bookTicket\<close>\<close>

datatype book_json =
    MissingFields
  | Booked "objectid \<times> ticket"
  | BookError js_error

text \<open>The document \<^verbatim>\<open>ticketDoc\<close>, once \<^verbatim>\<open>new ObjectId(applicantId)\<close> has returned \<open>ref\<close>.\<close>

definition ticketDoc :: "env \<Rightarrow> body \<Rightarrow> objectid \<Rightarrow> ticket" where
  "ticketDoc e b ref =
     \<lparr> applicantId = ref,
       source = b ''source'',
       destination = b ''destination'',
       paymentType = b ''paymentType'',
       amount = (if b ''paymentType'' = Str ''PAID'' then Number (b ''amount'') else Fin 0),
       bookedAt = now e \<rparr>"

definition post_bookTicket ::
  "env \<Rightarrow> server_state \<Rightarrow> body \<Rightarrow> book_json response \<times> server_state" where
  "post_bookTicket e st b =
     (if \<not> truthy (b ''applicantId'') \<or> \<not> truthy (b ''source'')
         \<or> \<not> truthy (b ''destination'') \<or> \<not> truthy (b ''paymentType'')
      then (Res 200 MissingFields, st)
      else
        (case new_ObjectId e (b ''applicantId'') of
           None \<Rightarrow> (Res 500 (BookError BSONError), st)
         | Some ref \<Rightarrow>
             (case tickets st of
                None \<Rightarrow> (Res 500 (BookError TypeError), st)
              | Some ts \<Rightarrow>
                  (case insertOne e ts (ticketDoc e b ref) of
                     Inl err \<Rightarrow> (Res 500 (BookError err), st)
                   | Inr (insertedId, ts') \<Rightarrow>
                       (Res 200 (Booked (insertedId, ticketDoc e b ref)),
                        st\<lparr>tickets := Some ts'\<rparr>)))))"

text \<open>The \<^verbatim>\<open>success\<close> field of each JSON body.\<close>

fun book_success :: "book_json \<Rightarrow> bool" where
  "book_success MissingFields = False"
| "book_success (Booked t) = True"
| "book_success (BookError err) = False"

subsection \<open>The server as a state machine\<close>

text \<open>
  The two handlers that write to the store, as requests; each is served with what it
  takes from outside. The \<^verbatim>\<open>GET\<close> handlers leave the state as it is.
\<close>

datatype request = Apply body files | BookTicket body

fun serve :: "env \<times> request \<Rightarrow> server_state \<Rightarrow> server_state" where
  "serve (e, Apply b f) st = snd (post_apply e st b f)"
| "serve (e, BookTicket b) st = snd (post_bookTicket e st b)"

definition run :: "(env \<times> request) list \<Rightarrow> server_state \<Rightarrow> server_state" where
  "run rs st = fold serve rs st"

section \<open>The fare rule as the specification words it\<close>

text \<open>
  The specification's fare: \<^verbatim>\<open>paymentType == PAID ? max(0, numeric(amount)) : 0\<close>, with
  \<^verbatim>\<open>Math.max(0, n)\<close> for the clamp. It is compared with what \<^verbatim>\<open>POST /bookTicket\<close> stores.
\<close>

definition max0 :: "jsnum \<Rightarrow> jsnum" where
  "max0 n = (case n of NaN \<Rightarrow> NaN | PosInf \<Rightarrow> PosInf | NegInf \<Rightarrow> Fin 0 | Fin q \<Rightarrow> Fin (max 0 q))"

definition spec_fare :: "jsval \<Rightarrow> jsval \<Rightarrow> jsnum" where
  "spec_fare pt amt = (if pt = Str ''PAID'' then max0 (Number amt) else Fin 0)"

section \<open>Example requests\<close>

text \<open>A JSON object with the listed fields.\<close>

definition body_of :: "(string \<times> jsval) list \<Rightarrow> body" where
  "body_of kvs k = (case map_of kvs k of Some v \<Rightarrow> v | None \<Rightarrow> Undefined)"

text \<open>
  An \<^verbatim>\<open>ObjectId\<close> constructor for the examples: it takes a string of 24 hexadecimal
  digits and throws on any other string, as every version of the driver does.
\<close>

definition hex_ObjectId :: "jsval \<Rightarrow> objectid option" where
  "hex_ObjectId v =
     (case v of
        Str s \<Rightarrow> if length s = 24 \<and> list_all (\<lambda>c. c \<in> set ''0123456789abcdefABCDEF'') s
                 then Some (Oid s) else None
      | _ \<Rightarrow> None)"

definition example_env :: env where
  "example_env =
     \<lparr> random = 1 / 2,
       toDataURL = (\<lambda>s. Some (''data:image/png;base64,'' @ s)),
       new_ObjectId = hex_ObjectId,
       generated_id = Oid ''6543210000000000000000a1'',
       now = 1700000000,
       store_up = True \<rparr>"

definition connected_empty :: server_state where
  "connected_empty = \<lparr> applications = Some [], tickets = Some [] \<rparr>"

definition no_files :: files where
  "no_files = (\<lambda>field. None)"

text \<open>
  The store after one issuance into the empty store, and the environment of a second
  request in which \<^verbatim>\<open>Math.random()\<close> returns the same value again.
\<close>

definition first_body :: body where
  "first_body = body_of [(''name'', Str ''Lakshmi''), (''phone'', Str ''9000000001'')]"

definition one_applicant :: server_state where
  "one_applicant = snd (post_apply example_env connected_empty first_body no_files)"

definition second_env :: env where
  "second_env = example_env\<lparr>generated_id := Oid ''6543210000000000000000a2''\<rparr>"

section \<open>Properties of the pass identifier\<close>

lemma digit_val_digit_char: "d < 10 \<Longrightarrow> digit_val (digit_char d) = d"
proof -
  assume "d < 10"
  then have "d = 0 \<or> d = 1 \<or> d = 2 \<or> d = 3 \<or> d = 4
      \<or> d = 5 \<or> d = 6 \<or> d = 7 \<or> d = 8 \<or> d = 9"
    by arith
  then show ?thesis
    by (elim disjE) (simp_all add: digit_val_def digit_char_def is_digit_def)
qed

lemma is_digit_digit_char: "is_digit (digit_char d)"
  unfolding digit_char_def is_digit_def by (rule nth_mem) simp

lemma digits_val_snoc: "digits_val base (xs @ [c]) = base * digits_val base xs + digit_val c"
  by (simp add: digits_val_def)

lemma digits_val_show_nat: "digits_val 10 (show_nat n) = n"
proof (induction n rule: show_nat.induct)
  case (1 n)
  show ?case
  proof (cases "n < 10")
    case True
    then show ?thesis
      by (subst show_nat.simps) (simp add: digits_val_def digit_val_digit_char)
  next
    case False
    with 1 have "digits_val 10 (show_nat (n div 10)) = n div 10" by simp
    with False show ?thesis
      by (subst show_nat.simps) (simp add: digits_val_snoc digit_val_digit_char)
  qed
qed

lemma show_nat_digits: "list_all is_digit (show_nat n)"
proof (induction n rule: show_nat.induct)
  case (1 n)
  then show ?case
    by (subst show_nat.simps) (simp add: is_digit_digit_char)
qed

lemma length_show_nat: "10 ^ k \<le> n \<Longrightarrow> n < 10 ^ Suc k \<Longrightarrow> length (show_nat n) = Suc k"
proof (induction k arbitrary: n)
  case 0
  then show ?case by (subst show_nat.simps) simp
next
  case (Suc k)
  define a :: nat where "a = 10 ^ k"
  from Suc.prems have b: "10 * a \<le> n" "n < 10 * (10 * a)"
    by (simp_all add: a_def)
  have "0 < a" by (simp add: a_def)
  with b have ge: "10 \<le> n" by linarith
  from b have "a \<le> n div 10" "n div 10 < 10 * a"
    by linarith+
  then have "10 ^ k \<le> n div 10" "n div 10 < 10 ^ Suc k"
    by (simp_all add: a_def)
  then have "length (show_nat (n div 10)) = Suc k" by (rule Suc.IH)
  with ge show ?case by (subst show_nat.simps) simp
qed

subsection \<open>Rounding\<close>

lemma round_half_even_of_int: "round_half_even (of_int n) = n"
  by (simp add: round_half_even_def)

lemma round_half_even_le: "y \<le> of_int n \<Longrightarrow> round_half_even y \<le> n"
proof -
  assume y: "y \<le> of_int n"
  show ?thesis
  proof (cases "y = of_int n")
    case True
    then show ?thesis by (simp add: round_half_even_of_int)
  next
    case False
    with y have "y < of_int n" by simp
    then have "\<lfloor>y\<rfloor> < n" by (simp add: floor_less_iff)
    then have "\<lfloor>y\<rfloor> + 1 \<le> n" by simp
    moreover have "round_half_even y \<le> \<lfloor>y\<rfloor> + 1"
      by (simp add: round_half_even_def Let_def)
    ultimately show ?thesis by linarith
  qed
qed

lemma round_half_even_ge: "of_int n \<le> y \<Longrightarrow> n \<le> round_half_even y"
proof -
  assume "of_int n \<le> y"
  then have "n \<le> \<lfloor>y\<rfloor>" by (simp add: le_floor_iff)
  moreover have "\<lfloor>y\<rfloor> \<le> round_half_even y"
    by (simp add: round_half_even_def Let_def)
  ultimately show ?thesis by linarith
qed

lemma round_half_even_below_half:
  assumes "y < of_int n - 1 / 2"
  shows "round_half_even y \<le> n - 1"
proof -
  have f: "of_int \<lfloor>y\<rfloor> \<le> y" by simp
  from assms have "y < of_int n" by linarith
  then have "\<lfloor>y\<rfloor> < n" by (simp add: floor_less_iff)
  then consider "\<lfloor>y\<rfloor> \<le> n - 2" | "\<lfloor>y\<rfloor> = n - 1" by linarith
  then show ?thesis
  proof cases
    case 1
    moreover have "round_half_even y \<le> \<lfloor>y\<rfloor> + 1"
      by (simp add: round_half_even_def Let_def)
    ultimately show ?thesis by linarith
  next
    case 2
    with assms have "y - of_int \<lfloor>y\<rfloor> < 1 / 2" by simp
    then have "round_half_even y = \<lfloor>y\<rfloor>"
      by (simp add: round_half_even_def Let_def)
    with 2 show ?thesis by simp
  qed
qed

lemma filter_antitone_upt:
  assumes "\<And>j k. j \<le> k \<Longrightarrow> P k \<Longrightarrow> P j"
  shows "k < n \<Longrightarrow> P k \<longleftrightarrow> k < length (filter P [0..<n])"
proof (induction n arbitrary: k)
  case 0
  then show ?case by simp
next
  case (Suc n)
  show ?case
  proof (cases "P n")
    case True
    have "P j" if "j < n" for j
    proof -
      from that have "j \<le> n" by simp
      then show ?thesis using True by (rule assms)
    qed
    then have "\<forall>j \<in> set [0..<n]. P j" by simp
    then have "filter P [0..<n] = [0..<n]" by (simp only: filter_True)
    with True have "length (filter P [0..<Suc n]) = Suc n" by simp
    moreover from True assms Suc.prems have "P k" by (metis less_Suc_eq_le)
    ultimately show ?thesis using Suc.prems by simp
  next
    case False
    then have l: "length (filter P [0..<Suc n]) = length (filter P [0..<n])" by simp
    have "length (filter P [0..<n]) \<le> n"
      by (metis diff_zero length_filter_le length_upt)
    then have n: "\<not> n < length (filter P [0..<n])" by simp
    show ?thesis
    proof (cases "k = n")
      case True
      with False n show ?thesis unfolding l by simp
    next
      case False
      with Suc.prems have "k < n" by simp
      then show ?thesis unfolding l by (rule Suc.IH)
    qed
  qed
qed

lemma exponent64_count:
  assumes "k < 2045"
  shows "2 powi (int k - 1021) \<le> \<bar>x\<bar> \<longleftrightarrow> int k - 1022 < exponent64 x"
proof -
  let ?P = "\<lambda>k. (2::rat) powi (int k - 1021) \<le> \<bar>x\<bar>"
  have "?P j" if "j \<le> k" "?P k" for j k
  proof -
    from that(1) have "(2::rat) powi (int j - 1021) \<le> 2 powi (int k - 1021)"
      by (intro power_int_increasing) simp_all
    with that(2) show ?thesis by linarith
  qed
  from filter_antitone_upt [of ?P, OF this assms]
  show ?thesis by (simp add: exponent64_def)
qed

lemma exponent64_le:
  assumes "\<bar>x\<bar> < 2 powi (e + 1)" and "- 1022 \<le> e" and "e \<le> 1022"
  shows "exponent64 x \<le> e"
proof -
  define k where "k = nat (e + 1022)"
  from assms have k: "k < 2045" "int k - 1021 = e + 1" "int k - 1022 = e"
    by (simp_all add: k_def)
  from exponent64_count [OF k(1), of x] assms(1) show ?thesis
    unfolding k by linarith
qed

lemma exponent64_ge:
  assumes "2 powi e \<le> \<bar>x\<bar>" and "- 1021 \<le> e" and "e \<le> 1023"
  shows "e \<le> exponent64 x"
proof -
  define k where "k = nat (e + 1021)"
  from assms have k: "k < 2045" "int k - 1021 = e" "int k - 1022 = e - 1"
    by (simp_all add: k_def)
  from exponent64_count [OF k(1), of x] assms(1) show ?thesis
    unfolding k by linarith
qed

lemma exponent64_eq:
  assumes "2 powi e \<le> \<bar>x\<bar>" and "\<bar>x\<bar> < 2 powi (e + 1)" and "- 1021 \<le> e" and "e \<le> 1022"
  shows "exponent64 x = e"
  using exponent64_le [OF assms(2)] exponent64_ge [OF assms(1)] assms(3,4) by linarith

lemma round64_quantum:
  assumes "exponent64 x = e" and "e \<le> 52"
  shows "round64 x = of_int (round_half_even (x * 2 ^ nat (52 - e))) / 2 ^ nat (52 - e)"
proof -
  from assms(2) have "(2::rat) powi (e - 52) = 1 / 2 ^ nat (52 - e)"
    by (metis diff_ge_0_iff_ge minus_diff_eq power_int_def power_int_minus_divide nat_0_le
        power_int_of_nat)
  with assms(1) show ?thesis
    by (simp add: round64_def Let_def)
qed

lemma round64_le:
  assumes "y \<le> of_int m / 2 ^ k" and "exponent64 y \<le> 52 - int k"
  shows "round64 y \<le> of_int m / 2 ^ k"
proof -
  define n where "n = nat (52 - exponent64 y)"
  from assms(2) have kn: "k \<le> n" by (simp add: n_def)
  from assms(2) have "exponent64 y \<le> 52" by linarith
  then have r: "round64 y = of_int (round_half_even (y * 2 ^ n)) / 2 ^ n"
    unfolding n_def by (intro round64_quantum) simp_all
  from kn have p: "(2::rat) ^ n = 2 ^ k * 2 ^ (n - k)"
    by (simp flip: power_add)
  from assms(1) have "y * 2 ^ n \<le> of_int m / 2 ^ k * 2 ^ n"
    by (rule mult_right_mono) simp
  also have "\<dots> = of_int (m * 2 ^ (n - k))"
    by (simp add: p)
  finally have "round_half_even (y * 2 ^ n) \<le> m * 2 ^ (n - k)"
    by (rule round_half_even_le)
  then have "(of_int (round_half_even (y * 2 ^ n)) :: rat) \<le> of_int (m * 2 ^ (n - k))"
    by (simp only: of_int_le_iff)
  then have "(of_int (round_half_even (y * 2 ^ n)) :: rat) / 2 ^ n \<le> of_int (m * 2 ^ (n - k)) / 2 ^ n"
    by (simp add: divide_right_mono)
  also have "\<dots> = of_int m / 2 ^ k"
    by (simp add: p)
  finally show ?thesis by (simp only: r)
qed

lemma round64_ge:
  assumes "of_int m / 2 ^ k \<le> y" and "exponent64 y \<le> 52 - int k"
  shows "of_int m / 2 ^ k \<le> round64 y"
proof -
  define n where "n = nat (52 - exponent64 y)"
  from assms(2) have kn: "k \<le> n" by (simp add: n_def)
  from assms(2) have "exponent64 y \<le> 52" by linarith
  then have r: "round64 y = of_int (round_half_even (y * 2 ^ n)) / 2 ^ n"
    unfolding n_def by (intro round64_quantum) simp_all
  from kn have p: "(2::rat) ^ n = 2 ^ k * 2 ^ (n - k)"
    by (simp flip: power_add)
  have "of_int (m * 2 ^ (n - k)) = of_int m / 2 ^ k * (2::rat) ^ n"
    by (simp add: p)
  also from assms(1) have "\<dots> \<le> y * 2 ^ n"
    by (rule mult_right_mono) simp
  finally have "m * 2 ^ (n - k) \<le> round_half_even (y * 2 ^ n)"
    by (rule round_half_even_ge)
  then have "(of_int (m * 2 ^ (n - k)) :: rat) \<le> of_int (round_half_even (y * 2 ^ n))"
    by (simp only: of_int_le_iff)
  then have "(of_int (m * 2 ^ (n - k)) :: rat) / 2 ^ n \<le> of_int (round_half_even (y * 2 ^ n)) / 2 ^ n"
    by (simp add: divide_right_mono)
  moreover have "(of_int (m * 2 ^ (n - k)) :: rat) / 2 ^ n = of_int m / 2 ^ k"
    by (simp add: p)
  ultimately show ?thesis by (simp only: r)
qed

lemma round64_exact:
  assumes "y = of_int m / 2 ^ k" and "exponent64 y \<le> 52 - int k"
  shows "round64 y = y"
proof -
  from assms have "round64 y \<le> of_int m / 2 ^ k" by (intro round64_le) simp_all
  moreover from assms have "of_int m / 2 ^ k \<le> round64 y" by (intro round64_ge) simp_all
  ultimately show ?thesis using assms(1) by simp
qed

lemma binary64_below_one:
  assumes "round64 r = r" and "0 \<le> r" and "r < 1"
  shows "r \<le> 1 - 1 / 2 ^ 53"
proof (cases "r < 1 / 2")
  case True
  then show ?thesis by simp
next
  case False
  with assms have "exponent64 r = - 1"
    by (intro exponent64_eq) (simp_all add: power_int_minus_divide)
  then have "round64 r = of_int (round_half_even (r * 2 ^ nat (52 - (- 1)))) / 2 ^ nat (52 - (- 1))"
    by (rule round64_quantum) simp
  with assms(1) have r: "r = of_int (round_half_even (r * 2 ^ 53)) / 2 ^ 53"
    by simp
  define N where "N = round_half_even (r * 2 ^ 53)"
  from r have rN: "r = of_int N / 2 ^ 53" by (simp add: N_def)
  with assms(3) have "(of_int N :: rat) < 2 ^ 53" by simp
  then have "(of_int N :: rat) < of_int (2 ^ 53)" by simp
  then have "N < 2 ^ 53" by (simp only: of_int_less_iff)
  then have "N \<le> 2 ^ 53 - 1" by simp
  then have "(of_int N :: rat) \<le> of_int (2 ^ 53 - 1)" by (simp only: of_int_le_iff)
  then have "(of_int N :: rat) / 2 ^ 53 \<le> of_int (2 ^ 53 - 1) / 2 ^ 53"
    by (rule divide_right_mono) simp
  with rN show ?thesis by simp
qed

lemma product_bounds:
  assumes "0 \<le> r" and "r \<le> 1 - 1 / 2 ^ 53"
  shows "0 \<le> round64 (r * 90000000)" and "round64 (r * 90000000) \<le> 90000000 - 1 / 2 ^ 26"
proof -
  define y where "y = r * 90000000"
  from assms have y: "0 \<le> y" "y \<le> 90000000 - 90000000 / 2 ^ 53"
    by (simp_all add: y_def)
  then have e: "exponent64 y \<le> 26"
    by (intro exponent64_le) simp_all
  from y(1) e have "of_int 0 / 2 ^ 0 \<le> round64 y"
    by (intro round64_ge) simp_all
  then show "0 \<le> round64 (r * 90000000)" by (simp add: y_def)
  have "round64 y \<le> 90000000 - 1 / 2 ^ 26"
  proof (cases "y < 2 ^ 26")
    case True
    with e have "round64 y \<le> of_int (2 ^ 26) / 2 ^ 0"
      by (intro round64_le) simp_all
    then show ?thesis by simp
  next
    case False
    with y have "exponent64 y = 26"
      by (intro exponent64_eq) simp_all
    then have "round64 y = of_int (round_half_even (y * 2 ^ nat (52 - 26))) / 2 ^ nat (52 - 26)"
      by (rule round64_quantum) simp
    then have q: "round64 y = of_int (round_half_even (y * 2 ^ 26)) / 2 ^ 26"
      by simp
    from y(2) have "y * 2 ^ 26 \<le> (90000000 - 90000000 / 2 ^ 53) * 2 ^ 26"
      by (rule mult_right_mono) simp
    then have "y * 2 ^ 26 < of_int 6039797760000000 - 1 / 2"
      by simp
    then have "round_half_even (y * 2 ^ 26) \<le> 6039797760000000 - 1"
      by (rule round_half_even_below_half)
    then have "(of_int (round_half_even (y * 2 ^ 26)) :: rat) \<le> of_int (6039797760000000 - 1)"
      by (simp only: of_int_le_iff)
    then have "(of_int (round_half_even (y * 2 ^ 26)) :: rat) / 2 ^ 26
        \<le> of_int (6039797760000000 - 1) / 2 ^ 26"
      by (rule divide_right_mono) simp
    with q show ?thesis by simp
  qed
  then show "round64 (r * 90000000) \<le> 90000000 - 1 / 2 ^ 26" by (simp add: y_def)
qed

lemma sum_bounds:
  assumes "0 \<le> p" and "p \<le> 90000000 - 1 / 2 ^ 26"
  shows "10000000 \<le> round64 (10000000 + p)" and "round64 (10000000 + p) < 100000000"
proof -
  define y where "y = 10000000 + p"
  from assms have y: "10000000 \<le> y" "y \<le> 100000000 - 1 / 2 ^ 26"
    by (simp_all add: y_def)
  then have e: "exponent64 y \<le> 26"
    by (intro exponent64_le) simp_all
  from y(1) e have "of_int 10000000 / 2 ^ 0 \<le> round64 y"
    by (intro round64_ge) simp_all
  then show "10000000 \<le> round64 (10000000 + p)" by (simp add: y_def)
  from y(2) have "y \<le> of_int 6710886399999999 / 2 ^ 26" by simp
  with e have "round64 y \<le> of_int 6710886399999999 / 2 ^ 26"
    by (intro round64_le) simp_all
  then show "round64 (10000000 + p) < 100000000" by (simp add: y_def)
qed

subsection \<open>The format of the identifier\<close>

text \<open>
  Claim C8. Whatever binary64 value in \<open>[0, 1)\<close> \<^verbatim>\<open>Math.random()\<close> returns (a value
  that rounding leaves as it is: \<open>round64 r = r\<close>), the
  generated pass identifier is the prefix \<^verbatim>\<open>TSRTC-\<close> followed by exactly eight decimal
  digits, and the number they spell lies between 10000000 and 99999999. (The largest
  binary64 value below 1 is \<open>1 - 2\<^sup>-\<^sup>5\<^sup>3\<close>; its product with 90000000 rounds to
  \<open>90000000 - 2\<^sup>-\<^sup>2\<^sup>6\<close>, and the sum stays below \<open>10\<^sup>8\<close>.)
\<close>

theorem generateUniquePassId_format:
  assumes "round64 r = r" and "0 \<le> r" and "r < 1"
  shows "take 6 (generateUniquePassId r) = ''TSRTC-''
       \<and> length (drop 6 (generateUniquePassId r)) = 8
       \<and> list_all is_digit (drop 6 (generateUniquePassId r))
       \<and> 10000000 \<le> digits_val 10 (drop 6 (generateUniquePassId r))
       \<and> digits_val 10 (drop 6 (generateUniquePassId r)) \<le> 99999999"
proof -
  define p where "p = round64 (r * 90000000)"
  define s where "s = round64 (10000000 + p)"
  define f where "f = \<lfloor>s\<rfloor>"
  define n where "n = nat f"
  from assms have "r \<le> 1 - 1 / 2 ^ 53" by (rule binary64_below_one)
  with assms(2) have "0 \<le> p" "p \<le> 90000000 - 1 / 2 ^ 26"
    unfolding p_def by (rule product_bounds)+
  then have s: "10000000 \<le> s" "s < 100000000"
    unfolding s_def by (rule sum_bounds)+
  from s(1) have lo: "10000000 \<le> f"
    by (simp add: f_def le_floor_iff)
  from s(2) have hi: "f < 100000000"
    by (simp add: f_def floor_less_iff)
  from lo hi have "10000000 \<le> n" "n < 100000000"
    unfolding n_def by linarith+
  then have n: "10 ^ 7 \<le> n" "n < 10 ^ Suc 7"
    by simp_all
  have "generateUniquePassId r = ''TSRTC-'' @ show_int f"
    unfolding generateUniquePassId_def f_def s_def p_def Let_def by (rule refl)
  moreover from lo have "show_int f = show_nat n"
    by (simp add: show_int_def n_def)
  ultimately have gen: "generateUniquePassId r = ''TSRTC-'' @ show_nat n"
    by simp
  from n have len: "length (show_nat n) = Suc 7" by (rule length_show_nat)
  from n show ?thesis
    by (simp add: gen len show_nat_digits digits_val_show_nat)
qed

lemma round64_integer:
  assumes "\<bar>of_int m :: rat\<bar> < 2 ^ 53"
  shows "round64 (of_int m) = of_int m"
proof -
  from assms have "exponent64 (of_int m) \<le> 52"
    by (intro exponent64_le) simp_all
  then show ?thesis
    by (intro round64_exact [where m = m and k = 0]) simp_all
qed

lemma example_passId: "generateUniquePassId (1 / 2) = ''TSRTC-55000000''"
proof -
  have "round64 (of_int 45000000) = of_int 45000000"
    by (rule round64_integer) simp
  moreover have "round64 (of_int 55000000) = of_int 55000000"
    by (rule round64_integer) simp
  ultimately show ?thesis
    by (simp add: generateUniquePassId_def show_int_def show_nat.simps digit_char_def)
qed

text \<open>
  Where the rounding decides the digits: for \<open>r = 350279971 / 2\<^sup>5\<^sup>2\<close> the product is exact,
  a little below 7, and the sum rounds up to 10000007.
\<close>

lemma rounded_passId: "generateUniquePassId (350279971 / 2 ^ 52) = ''TSRTC-10000007''"
proof -
  let ?y = "of_int 246290604609375 / 2 ^ 45 :: rat"
  have y: "(350279971 / 2 ^ 52 :: rat) * 90000000 = ?y" by simp
  have "exponent64 ?y \<le> 7"
    by (intro exponent64_le) simp_all
  then have p: "round64 ?y = ?y"
    by (intro round64_exact [where m = 246290604609375 and k = 45]) simp_all
  have "exponent64 (10000000 + ?y) = 23"
    by (intro exponent64_eq) simp_all
  then have "round64 (10000000 + ?y)
      = of_int (round_half_even ((10000000 + ?y) * 2 ^ nat (52 - 23))) / 2 ^ nat (52 - 23)"
    by (rule round64_quantum) simp
  also have "\<dots> = 10000007"
  proof -
    have v: "(10000000 + ?y) * 2 ^ nat (52 - 23) = 351843967178924609375 / 65536"
      by simp
    have "\<lfloor>351843967178924609375 / 65536 :: rat\<rfloor> = 5368712878096383"
      by (rule floor_unique) simp_all
    then have "round_half_even (351843967178924609375 / 65536) = 5368712878096384"
      by (simp add: round_half_even_def Let_def)
    then show ?thesis
      by (simp only: v) simp
  qed
  finally have "round64 (10000000 + round64 ((350279971 / 2 ^ 52) * 90000000)) = 10000007"
    by (simp only: y p)
  then show ?thesis
    by (simp add: generateUniquePassId_def show_int_def show_nat.simps digit_char_def)
qed

theorem generateUniquePassId_format_witness:
  "round64 (350279971 / 2 ^ 52) = 350279971 / 2 ^ 52
   \<and> (0::rat) \<le> 350279971 / 2 ^ 52 \<and> (350279971 / 2 ^ 52 :: rat) < 1
   \<and> generateUniquePassId (350279971 / 2 ^ 52) = ''TSRTC-10000007''
   \<and> take 6 (generateUniquePassId (350279971 / 2 ^ 52)) = ''TSRTC-''
   \<and> length (drop 6 (generateUniquePassId (350279971 / 2 ^ 52))) = 8
   \<and> list_all is_digit (drop 6 (generateUniquePassId (350279971 / 2 ^ 52)))
   \<and> 10000000 \<le> digits_val 10 (drop 6 (generateUniquePassId (350279971 / 2 ^ 52)))
   \<and> digits_val 10 (drop 6 (generateUniquePassId (350279971 / 2 ^ 52))) \<le> 99999999"
proof -
  let ?r = "350279971 / 2 ^ 52 :: rat"
  have "exponent64 ?r \<le> 0"
    by (intro exponent64_le) simp_all
  then have h1: "round64 ?r = ?r"
    by (intro round64_exact [where m = 350279971 and k = 52]) simp_all
  have h: "(0::rat) \<le> ?r" "?r < 1" by simp_all
  from h1 h rounded_passId generateUniquePassId_format [OF h1 h] show ?thesis by blast
qed

section \<open>Properties of booking\<close>

lemmas Number_eval = StringToNumber_def trim_def is_ws_def unsigned_decimal_def is_digit_def
  exponent_part_def signed_integer_def digits_val_def digit_val_def pow10_def negate_def
  radix_literal_def

lemmas example_eval = example_env_def connected_empty_def body_of_def hex_ObjectId_def
  no_files_def

lemma bookTicket_Booked:
  assumes "post_bookTicket e st b = (Res s (Booked t), st')"
  shows "\<exists>ref ts. new_ObjectId e (b ''applicantId'') = Some ref
           \<and> tickets st = Some ts
           \<and> t = (generated_id e, ticketDoc e b ref)
           \<and> st' = st\<lparr>tickets := Some (ts @ [t])\<rparr>"
  using assms
  by (auto simp: post_bookTicket_def insertOne_def split: if_splits option.splits sum.splits)


text \<open>
  Claim C6. When any of \<^verbatim>\<open>applicantId\<close>, \<^verbatim>\<open>source\<close>, \<^verbatim>\<open>destination\<close>, \<^verbatim>\<open>paymentType\<close> is
  absent or empty (falsy, as the handler tests it), the booking answers
  \<^verbatim>\<open>{success: false, msg: "Missing fields"}\<close> and the state, the ticket store with it, is
  what it was.
\<close>

theorem bookTicket_missing_fields:
  assumes "\<not> truthy (b ''applicantId'') \<or> \<not> truthy (b ''source'')
         \<or> \<not> truthy (b ''destination'') \<or> \<not> truthy (b ''paymentType'')"
  shows "post_bookTicket e st b = (Res 200 MissingFields, st)
       \<and> \<not> book_success (json (fst (post_bookTicket e st b)))
       \<and> tickets (snd (post_bookTicket e st b)) = tickets st"
  using assms by (auto simp: post_bookTicket_def)

theorem bookTicket_missing_fields_witness:
  "\<not> truthy (body_of [(''applicantId'', Str ''0123456789abcdef01234567''),
                       (''source'', Str []), (''paymentType'', Str ''FREE'')] ''source'')
   \<and> \<not> truthy (body_of [(''applicantId'', Str ''0123456789abcdef01234567''),
                       (''source'', Str []), (''paymentType'', Str ''FREE'')] ''destination'')
   \<and> post_bookTicket example_env connected_empty
        (body_of [(''applicantId'', Str ''0123456789abcdef01234567''),
                  (''source'', Str []), (''paymentType'', Str ''FREE'')])
      = (Res 200 MissingFields, connected_empty)
   \<and> tickets (snd (post_bookTicket example_env connected_empty
        (body_of [(''applicantId'', Str ''0123456789abcdef01234567''),
                  (''source'', Str []), (''paymentType'', Str ''FREE'')]))) = Some []"
proof -
  let ?b = "body_of [(''applicantId'', Str ''0123456789abcdef01234567''),
                     (''source'', Str []), (''paymentType'', Str ''FREE'')]"
  have s: "\<not> truthy (?b ''source'')" and d: "\<not> truthy (?b ''destination'')"
    by (simp_all add: body_of_def)
  then have "\<not> truthy (?b ''applicantId'') \<or> \<not> truthy (?b ''source'')
         \<or> \<not> truthy (?b ''destination'') \<or> \<not> truthy (?b ''paymentType'')"
    by blast
  from bookTicket_missing_fields
         [where e = example_env and b = ?b and st = connected_empty, OF this] s d
  show ?thesis by (simp add: connected_empty_def)
qed

text \<open>
  Claim C1, as the handler has it. The handler never reads the applicant store: the only
  check on \<^verbatim>\<open>applicantId\<close> is the driver's \<^verbatim>\<open>new ObjectId\<close>. When that constructor rejects the
  reference, the booking fails and no ticket is written; and the outcome of a booking is
  the same whatever the applicant store holds.
\<close>

theorem bookTicket_malformed_ref:
  "(new_ObjectId e (b ''applicantId'') = None \<longrightarrow>
      snd (post_bookTicket e st b) = st
      \<and> \<not> book_success (json (fst (post_bookTicket e st b))))
   \<and> fst (post_bookTicket e (st\<lparr>applications := a\<rparr>) b) = fst (post_bookTicket e st b)
   \<and> tickets (snd (post_bookTicket e (st\<lparr>applications := a\<rparr>) b))
       = tickets (snd (post_bookTicket e st b))"
  by (simp add: post_bookTicket_def split: option.splits sum.splits prod.splits)

theorem bookTicket_malformed_ref_witness:
  "new_ObjectId example_env
     (body_of [(''applicantId'', Str ''abc''), (''source'', Str ''A''),
               (''destination'', Str ''B''), (''paymentType'', Str ''FREE'')] ''applicantId'') = None
   \<and> post_bookTicket example_env connected_empty
        (body_of [(''applicantId'', Str ''abc''), (''source'', Str ''A''),
                  (''destination'', Str ''B''), (''paymentType'', Str ''FREE'')])
      = (Res 500 (BookError BSONError), connected_empty)
   \<and> snd (post_bookTicket example_env connected_empty
        (body_of [(''applicantId'', Str ''abc''), (''source'', Str ''A''),
                  (''destination'', Str ''B''), (''paymentType'', Str ''FREE'')]))
      = connected_empty"
proof -
  let ?b = "body_of [(''applicantId'', Str ''abc''), (''source'', Str ''A''),
                     (''destination'', Str ''B''), (''paymentType'', Str ''FREE'')]"
  have h: "new_ObjectId example_env (?b ''applicantId'') = None"
    by (simp add: example_eval)
  have v: "post_bookTicket example_env connected_empty ?b
             = (Res 500 (BookError BSONError), connected_empty)"
    by (simp add: post_bookTicket_def example_eval)
  from bookTicket_malformed_ref
         [where e = example_env and b = ?b and st = connected_empty and a = None] h v
  show ?thesis by simp
qed

theorem bookTicket_orphan_counterexample:
  "applications connected_empty = Some []
   \<and> get_applicant example_env connected_empty ''0123456789abcdef01234567''
       = Res 200 ApplicantFailure
   \<and> post_bookTicket example_env connected_empty
        (body_of [(''applicantId'', Str ''0123456789abcdef01234567''), (''source'', Str ''A''),
                  (''destination'', Str ''B''), (''paymentType'', Str ''FREE'')])
      = (Res 200 (Booked (Oid ''6543210000000000000000a1'',
                    \<lparr> applicantId = Oid ''0123456789abcdef01234567'', source = Str ''A'',
                      destination = Str ''B'', paymentType = Str ''FREE'', amount = Fin 0,
                      bookedAt = 1700000000 \<rparr>)),
         \<lparr> applications = Some [],
           tickets = Some [(Oid ''6543210000000000000000a1'',
                    \<lparr> applicantId = Oid ''0123456789abcdef01234567'', source = Str ''A'',
                      destination = Str ''B'', paymentType = Str ''FREE'', amount = Fin 0,
                      bookedAt = 1700000000 \<rparr>)] \<rparr>)"
  by (simp add: post_bookTicket_def get_applicant_def findOne_def insertOne_def ticketDoc_def
      example_eval)

text \<open>
  Claim C2, as the handler has it. With \<^verbatim>\<open>paymentType\<close> equal to \<^verbatim>\<open>"PAID"\<close>, the ticket a
  booking creates carries \<^verbatim>\<open>Number(amount)\<close> as it is, with no clamp. A supplied number is
  stored unchanged, and the stored amount is the specification's
  \<^verbatim>\<open>max(0, numeric(amount))\<close> whenever \<^verbatim>\<open>Number(amount)\<close> is a number that is not negative.
\<close>

theorem bookTicket_paid_amount:
  assumes "b ''paymentType'' = Str ''PAID''"
    and "post_bookTicket e st b = (Res 200 (Booked t), st')"
  shows "amount (snd t) = Number (b ''amount'')
       \<and> (\<exists>ts. tickets st = Some ts \<and> tickets st' = Some (ts @ [t]))
       \<and> (\<forall>n. b ''amount'' = Num n \<longrightarrow> amount (snd t) = n)
       \<and> (\<forall>q. Number (b ''amount'') = Fin q \<and> 0 \<le> q \<longrightarrow>
              amount (snd t) = Fin q
              \<and> amount (snd t) = spec_fare (b ''paymentType'') (b ''amount''))"
proof -
  from bookTicket_Booked [OF assms(2)] obtain ref ts where
    t: "t = (generated_id e, ticketDoc e b ref)" and
    ts: "tickets st = Some ts" and st': "st' = st\<lparr>tickets := Some (ts @ [t])\<rparr>"
    by blast
  from t assms(1) have a: "amount (snd t) = Number (b ''amount'')"
    by (simp add: ticketDoc_def)
  from ts st' have "\<exists>ts. tickets st = Some ts \<and> tickets st' = Some (ts @ [t])"
    by simp
  moreover from a have "\<forall>n. b ''amount'' = Num n \<longrightarrow> amount (snd t) = n"
    by simp
  moreover from a assms(1) have "\<forall>q. Number (b ''amount'') = Fin q \<and> 0 \<le> q \<longrightarrow>
      amount (snd t) = Fin q \<and> amount (snd t) = spec_fare (b ''paymentType'') (b ''amount'')"
    by (simp add: spec_fare_def max0_def)
  ultimately show ?thesis using a by blast
qed

theorem bookTicket_paid_amount_witness:
  "body_of [(''applicantId'', Str ''0123456789abcdef01234567''), (''source'', Str ''A''),
            (''destination'', Str ''B''), (''paymentType'', Str ''PAID''),
            (''amount'', Str ''50'')] ''paymentType'' = Str ''PAID''
   \<and> post_bookTicket example_env connected_empty
        (body_of [(''applicantId'', Str ''0123456789abcdef01234567''), (''source'', Str ''A''),
                  (''destination'', Str ''B''), (''paymentType'', Str ''PAID''),
                  (''amount'', Str ''50'')])
      = (Res 200 (Booked (Oid ''6543210000000000000000a1'',
                    \<lparr> applicantId = Oid ''0123456789abcdef01234567'', source = Str ''A'',
                      destination = Str ''B'', paymentType = Str ''PAID'', amount = Fin 50,
                      bookedAt = 1700000000 \<rparr>)),
         \<lparr> applications = Some [],
           tickets = Some [(Oid ''6543210000000000000000a1'',
                    \<lparr> applicantId = Oid ''0123456789abcdef01234567'', source = Str ''A'',
                      destination = Str ''B'', paymentType = Str ''PAID'', amount = Fin 50,
                      bookedAt = 1700000000 \<rparr>)] \<rparr>)
   \<and> Number (Str ''50'') = Fin 50
   \<and> spec_fare (Str ''PAID'') (Str ''50'') = Fin 50"
proof -
  let ?b = "body_of [(''applicantId'', Str ''0123456789abcdef01234567''), (''source'', Str ''A''),
                  (''destination'', Str ''B''), (''paymentType'', Str ''PAID''),
                  (''amount'', Str ''50'')]"
  let ?t = "(Oid ''6543210000000000000000a1'',
                    \<lparr> applicantId = Oid ''0123456789abcdef01234567'', source = Str ''A'',
                      destination = Str ''B'', paymentType = Str ''PAID'', amount = Fin 50,
                      bookedAt = 1700000000 \<rparr>)"
  have n: "StringToNumber ''50'' = Fin 50"
    by (simp add: Number_eval)
  have p: "?b ''paymentType'' = Str ''PAID''" and a: "?b ''amount'' = Str ''50''"
    by (simp_all add: body_of_def)
  have r: "post_bookTicket example_env connected_empty ?b
           = (Res 200 (Booked ?t), \<lparr> applications = Some [], tickets = Some [?t] \<rparr>)"
    by (simp add: post_bookTicket_def insertOne_def ticketDoc_def example_eval n)
  from bookTicket_paid_amount [OF p r] n p a r show ?thesis
    by (simp add: spec_fare_def max0_def)
qed

theorem bookTicket_paid_negative_counterexample:
  "post_bookTicket example_env connected_empty
        (body_of [(''applicantId'', Str ''0123456789abcdef01234567''), (''source'', Str ''A''),
                  (''destination'', Str ''B''), (''paymentType'', Str ''PAID''),
                  (''amount'', Num (Fin (- 5)))])
      = (Res 200 (Booked (Oid ''6543210000000000000000a1'',
                    \<lparr> applicantId = Oid ''0123456789abcdef01234567'', source = Str ''A'',
                      destination = Str ''B'', paymentType = Str ''PAID'', amount = Fin (- 5),
                      bookedAt = 1700000000 \<rparr>)),
         \<lparr> applications = Some [],
           tickets = Some [(Oid ''6543210000000000000000a1'',
                    \<lparr> applicantId = Oid ''0123456789abcdef01234567'', source = Str ''A'',
                      destination = Str ''B'', paymentType = Str ''PAID'', amount = Fin (- 5),
                      bookedAt = 1700000000 \<rparr>)] \<rparr>)
   \<and> spec_fare (Str ''PAID'') (Num (Fin (- 5))) = Fin 0
   \<and> Fin (- 5) \<noteq> Fin 0"
  by (simp add: post_bookTicket_def insertOne_def ticketDoc_def example_eval spec_fare_def
      max0_def)

text \<open>
  Claim C3. When \<^verbatim>\<open>paymentType\<close> is anything but \<^verbatim>\<open>"PAID"\<close>, the ticket a booking creates
  has amount \<open>0\<close>, whatever \<^verbatim>\<open>amount\<close> the caller sent. (A ticket is only created for a
  non-empty \<^verbatim>\<open>paymentType\<close>.)
\<close>

theorem bookTicket_not_paid_amount:
  assumes "b ''paymentType'' \<noteq> Str ''PAID''"
    and "post_bookTicket e st b = (Res 200 (Booked t), st')"
  shows "amount (snd t) = Fin 0
       \<and> truthy (b ''paymentType'')
       \<and> (\<exists>ts. tickets st = Some ts \<and> tickets st' = Some (ts @ [t]))"
proof -
  from bookTicket_Booked [OF assms(2)] obtain ref ts where
    t: "t = (generated_id e, ticketDoc e b ref)" and
    ts: "tickets st = Some ts" and st': "st' = st\<lparr>tickets := Some (ts @ [t])\<rparr>"
    by blast
  from t assms(1) have "amount (snd t) = Fin 0"
    by (simp add: ticketDoc_def)
  moreover from assms(2) have "truthy (b ''paymentType'')"
    by (auto simp: post_bookTicket_def split: if_splits)
  moreover from ts st' have "\<exists>ts. tickets st = Some ts \<and> tickets st' = Some (ts @ [t])"
    by simp
  ultimately show ?thesis by blast
qed

theorem bookTicket_not_paid_amount_witness:
  "body_of [(''applicantId'', Str ''0123456789abcdef01234567''), (''source'', Str ''A''),
            (''destination'', Str ''B''), (''paymentType'', Str ''paid''),
            (''amount'', Num (Fin 50))] ''paymentType'' \<noteq> Str ''PAID''
   \<and> post_bookTicket example_env connected_empty
        (body_of [(''applicantId'', Str ''0123456789abcdef01234567''), (''source'', Str ''A''),
                  (''destination'', Str ''B''), (''paymentType'', Str ''paid''),
                  (''amount'', Num (Fin 50))])
      = (Res 200 (Booked (Oid ''6543210000000000000000a1'',
                    \<lparr> applicantId = Oid ''0123456789abcdef01234567'', source = Str ''A'',
                      destination = Str ''B'', paymentType = Str ''paid'', amount = Fin 0,
                      bookedAt = 1700000000 \<rparr>)),
         \<lparr> applications = Some [],
           tickets = Some [(Oid ''6543210000000000000000a1'',
                    \<lparr> applicantId = Oid ''0123456789abcdef01234567'', source = Str ''A'',
                      destination = Str ''B'', paymentType = Str ''paid'', amount = Fin 0,
                      bookedAt = 1700000000 \<rparr>)] \<rparr>)"
proof -
  let ?b = "body_of [(''applicantId'', Str ''0123456789abcdef01234567''), (''source'', Str ''A''),
                  (''destination'', Str ''B''), (''paymentType'', Str ''paid''),
                  (''amount'', Num (Fin 50))]"
  let ?t = "(Oid ''6543210000000000000000a1'',
                    \<lparr> applicantId = Oid ''0123456789abcdef01234567'', source = Str ''A'',
                      destination = Str ''B'', paymentType = Str ''paid'', amount = Fin 0,
                      bookedAt = 1700000000 \<rparr>)"
  have p: "?b ''paymentType'' \<noteq> Str ''PAID''"
    by (simp add: body_of_def)
  have r: "post_bookTicket example_env connected_empty ?b
           = (Res 200 (Booked ?t), \<lparr> applications = Some [], tickets = Some [?t] \<rparr>)"
    by (simp add: post_bookTicket_def insertOne_def ticketDoc_def example_eval)
  from bookTicket_not_paid_amount [OF p r] p r show ?thesis
    by simp
qed






section \<open>Properties of lookup by pass identifier\<close>

lemma find_append_none:
  "\<forall>x\<in>set xs. \<not> P x \<Longrightarrow> find P (xs @ ys) = find P ys"
  by (induction xs) simp_all

lemma find_append_some:
  "find P xs = Some x \<Longrightarrow> find P (xs @ ys) = Some x"
  by (induction xs) (simp_all split: if_splits)

text \<open>
  Claim C7. With the applicant store connected and answering, a lookup by a pass
  identifier that no stored applicant carries is answered with status 404 and
  \<^verbatim>\<open>{success: false}\<close>, and a lookup by a pass identifier that some stored applicant carries
  is answered with such a record, in full. The handler is a total function: whatever
  happens, the outcome is a response.
\<close>

theorem getApplicant_by_passId:
  assumes "applications st = Some apps" and "store_up e"
  shows "((\<forall>d\<in>set apps. passId (snd d) \<noteq> pid) \<longrightarrow>
            get_getApplicant e st pid = Res 404 NoSuccess)
       \<and> ((\<exists>d\<in>set apps. passId (snd d) = pid) \<longrightarrow>
            (\<exists>a\<in>set apps. passId (snd a) = pid
                \<and> get_getApplicant e st pid = Res 200 (Applicant a)))"
proof (intro conjI impI)
  assume "\<forall>d\<in>set apps. passId (snd d) \<noteq> pid"
  then have "find (\<lambda>d. passId (snd d) = pid) apps = None"
    by (auto simp: find_None_iff)
  with assms show "get_getApplicant e st pid = Res 404 NoSuccess"
    by (simp add: get_getApplicant_def findOne_def)
next
  assume "\<exists>d\<in>set apps. passId (snd d) = pid"
  then have "find (\<lambda>d. passId (snd d) = pid) apps \<noteq> None"
    unfolding find_None_iff by blast
  then obtain a where a: "find (\<lambda>d. passId (snd d) = pid) apps = Some a"
    by blast
  then have "a \<in> set apps" "passId (snd a) = pid"
    by (auto simp: find_Some_iff)
  moreover from a assms have "get_getApplicant e st pid = Res 200 (Applicant a)"
    by (simp add: get_getApplicant_def findOne_def)
  ultimately show "\<exists>a\<in>set apps. passId (snd a) = pid
      \<and> get_getApplicant e st pid = Res 200 (Applicant a)"
    by blast
qed

lemma applicant_doc_passId: "passId (applicant_doc e b f pid qr) = pid"
  by (simp add: applicant_doc_def Let_def)

lemma applicant_doc_phone:
  "phone (applicant_doc e b f pid qr) = or_js (or_js (b ''phone'') (b ''whatsapp'')) (b ''number'')"
  "whatsapp (applicant_doc e b f pid qr)
     = or_js (b ''whatsapp'') (or_js (or_js (b ''phone'') (b ''whatsapp'')) (b ''number''))"
  "number (applicant_doc e b f pid qr)
     = or_js (b ''number'') (or_js (or_js (b ''phone'') (b ''whatsapp'')) (b ''number''))"
  by (simp_all add: applicant_doc_def Let_def)

lemma one_applicant_eq:
  "one_applicant =
     \<lparr> applications = Some [(Oid ''6543210000000000000000a1'',
          applicant_doc example_env first_body no_files ''TSRTC-55000000''
            ''data:image/png;base64,TSRTC-55000000'')],
       tickets = Some [] \<rparr>"
  by (simp add: one_applicant_def post_apply_def insertOne_def example_env_def
      connected_empty_def example_passId Let_def)

theorem getApplicant_by_passId_witness:
  "applications one_applicant = Some [(Oid ''6543210000000000000000a1'',
          applicant_doc example_env first_body no_files ''TSRTC-55000000''
            ''data:image/png;base64,TSRTC-55000000'')]
   \<and> store_up example_env
   \<and> get_getApplicant example_env one_applicant ''TSRTC-00000000'' = Res 404 NoSuccess
   \<and> get_getApplicant example_env one_applicant ''TSRTC-55000000''
       = Res 200 (Applicant (Oid ''6543210000000000000000a1'',
          applicant_doc example_env first_body no_files ''TSRTC-55000000''
            ''data:image/png;base64,TSRTC-55000000''))"
proof -
  let ?a = "(Oid ''6543210000000000000000a1'',
          applicant_doc example_env first_body no_files ''TSRTC-55000000''
            ''data:image/png;base64,TSRTC-55000000'')"
  have h: "applications one_applicant = Some [?a]" "store_up example_env"
    by (simp_all add: one_applicant_eq example_env_def)
  have p: "passId (snd ?a) = ''TSRTC-55000000''"
    by (simp add: applicant_doc_passId)
  from getApplicant_by_passId [OF h, of "''TSRTC-00000000''"] p
  have "get_getApplicant example_env one_applicant ''TSRTC-00000000'' = Res 404 NoSuccess"
    by simp
  moreover from h p
  have "get_getApplicant example_env one_applicant ''TSRTC-55000000'' = Res 200 (Applicant ?a)"
    by (simp add: get_getApplicant_def findOne_def)
  ultimately show ?thesis using h by simp
qed

section \<open>Properties of issuance\<close>

lemma apply_Stored:
  assumes "post_apply e st b f = (Res s (ApplicationStored rid pid qr), st')"
  shows "\<exists>apps. applications st = Some apps
           \<and> pid = generateUniquePassId (random e)
           \<and> toDataURL e pid = Some qr
           \<and> store_up e
           \<and> rid = generated_id e
           \<and> rid \<notin> fst ` set apps
           \<and> st' = st\<lparr>applications := Some (apps @ [(rid, applicant_doc e b f pid qr)])\<rparr>"
  using assms
  by (auto simp: post_apply_def insertOne_def Let_def split: option.splits sum.splits if_splits)

lemma apply_succeeds:
  assumes "applications st = Some apps"
    and "toDataURL e (generateUniquePassId (random e)) = Some qr"
    and "store_up e" and "generated_id e \<notin> fst ` set apps"
  shows "post_apply e st b f =
           (Res 200 (ApplicationStored (generated_id e) (generateUniquePassId (random e)) qr),
            st\<lparr>applications := Some (apps @ [(generated_id e,
                   applicant_doc e b f (generateUniquePassId (random e)) qr)])\<rparr>)"
  using assms by (simp add: post_apply_def insertOne_def Let_def)

lemma or_js_truthy: "truthy a \<or> truthy b \<Longrightarrow> truthy (or_js a b)"
  by (auto simp: or_js_def)

lemma or_js_falsy: "\<not> truthy a \<Longrightarrow> or_js a b = b"
  by (simp add: or_js_def)

text \<open>
  Claim C4. When at least one of \<^verbatim>\<open>phone\<close>, \<^verbatim>\<open>whatsapp\<close>, \<^verbatim>\<open>number\<close> is supplied non-empty
  (truthy, as \<^verbatim>\<open>||\<close> tests it; for a string that is: not the empty string), the record
  an issuance stores has as \<^verbatim>\<open>phone\<close> the first non-empty one of the three in that order,
  has each of \<^verbatim>\<open>whatsapp\<close> and \<^verbatim>\<open>number\<close> as supplied or, when it was left out, equal to
  that \<^verbatim>\<open>phone\<close>, and so has all three non-empty.
\<close>

theorem apply_phone_fields:
  assumes "truthy (b ''phone'') \<or> truthy (b ''whatsapp'') \<or> truthy (b ''number'')"
    and "post_apply e st b f = (Res 200 (ApplicationStored rid pid qr), st')"
  shows "\<exists>apps d. applications st = Some apps
           \<and> applications st' = Some (apps @ [(rid, d)])
           \<and> phone d = (if truthy (b ''phone'') then b ''phone''
                         else if truthy (b ''whatsapp'') then b ''whatsapp'' else b ''number'')
           \<and> whatsapp d = (if truthy (b ''whatsapp'') then b ''whatsapp'' else phone d)
           \<and> number d = (if truthy (b ''number'') then b ''number'' else phone d)
           \<and> truthy (phone d) \<and> truthy (whatsapp d) \<and> truthy (number d)"
proof -
  from apply_Stored [OF assms(2)] obtain apps where
    apps: "applications st = Some apps" and
    st': "st' = st\<lparr>applications := Some (apps @ [(rid, applicant_doc e b f pid qr)])\<rparr>"
    by blast
  let ?d = "applicant_doc e b f pid qr"
  have p: "phone ?d = (if truthy (b ''phone'') then b ''phone''
                       else if truthy (b ''whatsapp'') then b ''whatsapp'' else b ''number'')"
    by (simp add: applicant_doc_phone or_js_def)
  have w: "whatsapp ?d = (if truthy (b ''whatsapp'') then b ''whatsapp'' else phone ?d)"
    by (simp add: applicant_doc_phone or_js_def)
  have n: "number ?d = (if truthy (b ''number'') then b ''number'' else phone ?d)"
    by (simp add: applicant_doc_phone or_js_def)
  from assms(1) have tp: "truthy (phone ?d)"
    by (auto simp: p)
  with w n have "truthy (whatsapp ?d)" "truthy (number ?d)"
    by (simp_all split: if_splits)
  with apps st' p w n tp show ?thesis
    by (intro exI [of _ apps] exI [of _ ?d]) simp
qed

lemma first_body_fields:
  "first_body ''phone'' = Str ''9000000001''" "first_body ''whatsapp'' = Undefined"
  "first_body ''number'' = Undefined"
  by (simp_all add: first_body_def body_of_def)

theorem apply_phone_fields_witness:
  "truthy (first_body ''phone'')
   \<and> first_body ''whatsapp'' = Undefined
   \<and> post_apply example_env connected_empty first_body no_files
       = (Res 200 (ApplicationStored (Oid ''6543210000000000000000a1'') ''TSRTC-55000000''
                     ''data:image/png;base64,TSRTC-55000000''), one_applicant)
   \<and> (\<exists>d. applications one_applicant = Some [(Oid ''6543210000000000000000a1'', d)]
          \<and> phone d = Str ''9000000001'' \<and> whatsapp d = Str ''9000000001''
          \<and> number d = Str ''9000000001'')
   \<and> get_verify example_env one_applicant ''9000000001''
       = Res 200 (VerifySuccess (Oid ''6543210000000000000000a1''))"
proof -
  have h1: "truthy (first_body ''phone'') \<or> truthy (first_body ''whatsapp'')
      \<or> truthy (first_body ''number'')"
    by (simp add: first_body_fields)
  have h2: "post_apply example_env connected_empty first_body no_files
       = (Res 200 (ApplicationStored (Oid ''6543210000000000000000a1'') ''TSRTC-55000000''
                     ''data:image/png;base64,TSRTC-55000000''), one_applicant)"
    by (simp add: one_applicant_def)
      (simp add: post_apply_def insertOne_def example_env_def connected_empty_def
        example_passId Let_def)
  from apply_phone_fields [OF h1 h2] obtain apps d where
    d: "applications connected_empty = Some apps"
       "applications one_applicant = Some (apps @ [(Oid ''6543210000000000000000a1'', d)])"
       "phone d = Str ''9000000001''" "whatsapp d = Str ''9000000001''"
       "number d = Str ''9000000001''"
    by (auto simp: first_body_fields)
  from d(1) have "apps = []" by (simp add: connected_empty_def)
  with d have e: "\<exists>d. applications one_applicant = Some [(Oid ''6543210000000000000000a1'', d)]
          \<and> phone d = Str ''9000000001'' \<and> whatsapp d = Str ''9000000001''
          \<and> number d = Str ''9000000001''"
    by auto
  then have "get_verify example_env one_applicant ''9000000001''
       = Res 200 (VerifySuccess (Oid ''6543210000000000000000a1''))"
    by (auto simp: get_verify_def findOne_def phone_query_def example_env_def)
  with h2 e show ?thesis by (simp add: first_body_fields)
qed

text \<open>
  Claim C10. When none of \<^verbatim>\<open>phone\<close>, \<^verbatim>\<open>whatsapp\<close>, \<^verbatim>\<open>number\<close> is supplied non-empty, the
  issuance is not rejected: with the applicant store connected and taking the write (and
  the QR encoder returning), it succeeds, and the stored record has all three phone fields
  empty (each holds the falsy value sent as \<^verbatim>\<open>number\<close>). No phone lookup finds that record:
  it matches the query of \<^verbatim>\<open>GET /verify/:phone\<close> for no phone (a route parameter is never
  empty), and every such lookup answers as it did before the issuance.
\<close>

theorem apply_without_phone:
  assumes "\<not> truthy (b ''phone'')" and "\<not> truthy (b ''whatsapp'')"
    and "\<not> truthy (b ''number'')"
    and "applications st = Some apps"
    and "toDataURL e (generateUniquePassId (random e)) = Some qr"
    and "store_up e" and "generated_id e \<notin> fst ` set apps"
  shows "\<exists>d st'. post_apply e st b f =
             (Res 200 (ApplicationStored (generated_id e) (generateUniquePassId (random e)) qr),
              st')
           \<and> applications st' = Some (apps @ [(generated_id e, d)])
           \<and> phone d = b ''number'' \<and> whatsapp d = b ''number'' \<and> number d = b ''number''
           \<and> \<not> truthy (phone d) \<and> \<not> truthy (whatsapp d) \<and> \<not> truthy (number d)
           \<and> (\<forall>p. p \<noteq> [] \<longrightarrow> \<not> phone_query p (generated_id e, d))
           \<and> (\<forall>p e'. p \<noteq> [] \<longrightarrow> get_verify e' st' p = get_verify e' st p)"
proof -
  let ?pid = "generateUniquePassId (random e)"
  let ?d = "applicant_doc e b f ?pid qr"
  let ?st' = "st\<lparr>applications := Some (apps @ [(generated_id e, ?d)])\<rparr>"
  from assms(4-7) have r: "post_apply e st b f =
      (Res 200 (ApplicationStored (generated_id e) ?pid qr), ?st')"
    by (rule apply_succeeds)
  from assms(1-3) have v: "phone ?d = b ''number''" "whatsapp ?d = b ''number''"
    "number ?d = b ''number''"
    by (simp_all add: applicant_doc_phone or_js_falsy)
  with assms(3) have t: "\<not> truthy (phone ?d)" "\<not> truthy (whatsapp ?d)" "\<not> truthy (number ?d)"
    by simp_all
  have q: "\<not> phone_query p (generated_id e, ?d)" if "p \<noteq> []" for p
  proof
    assume "phone_query p (generated_id e, ?d)"
    with v have "b ''number'' = Str p" by (auto simp: phone_query_def)
    with that assms(3) show False by simp
  qed
  have g: "get_verify e' ?st' p = get_verify e' st p" if "p \<noteq> []" for p e'
  proof -
    from q [OF that] have "find (phone_query p) (apps @ [(generated_id e, ?d)])
        = find (phone_query p) apps"
      by (induction apps) simp_all
    with assms(4) show ?thesis
      by (simp add: get_verify_def findOne_def)
  qed
  from r v t q g show ?thesis
    by (intro exI [of _ ?d] exI [of _ ?st']) simp
qed

theorem apply_without_phone_witness:
  "\<not> truthy (body_of [(''name'', Str ''Lakshmi''), (''number'', Str [])] ''phone'')
   \<and> \<not> truthy (body_of [(''name'', Str ''Lakshmi''), (''number'', Str [])] ''number'')
   \<and> applications connected_empty = Some []
   \<and> toDataURL example_env (generateUniquePassId (random example_env))
       = Some ''data:image/png;base64,TSRTC-55000000''
   \<and> store_up example_env
   \<and> (\<exists>d st'. post_apply example_env connected_empty
                 (body_of [(''name'', Str ''Lakshmi''), (''number'', Str [])]) no_files
           = (Res 200 (ApplicationStored (Oid ''6543210000000000000000a1'') ''TSRTC-55000000''
                         ''data:image/png;base64,TSRTC-55000000''), st')
          \<and> applications st' = Some [(Oid ''6543210000000000000000a1'', d)]
          \<and> phone d = Str [] \<and> whatsapp d = Str [] \<and> number d = Str []
          \<and> get_verify example_env st' ''9000000001'' = Res 200 VerifyFailure)"
proof -
  let ?b = "body_of [(''name'', Str ''Lakshmi''), (''number'', Str [])]"
  have b: "?b ''phone'' = Undefined" "?b ''whatsapp'' = Undefined" "?b ''number'' = Str []"
    by (simp_all add: body_of_def)
  have g: "generateUniquePassId (random example_env) = ''TSRTC-55000000''"
    "generated_id example_env = Oid ''6543210000000000000000a1''"
    by (simp_all add: example_env_def example_passId)
  have h: "\<not> truthy (?b ''phone'')" "\<not> truthy (?b ''whatsapp'')" "\<not> truthy (?b ''number'')"
    "applications connected_empty = Some []"
    "toDataURL example_env (generateUniquePassId (random example_env))
       = Some ''data:image/png;base64,TSRTC-55000000''"
    "store_up example_env"
    "generated_id example_env \<notin> fst ` set ([] :: applicant collection)"
    by (simp_all add: b g) (simp_all add: example_env_def connected_empty_def)
  have v: "get_verify example_env connected_empty ''9000000001'' = Res 200 VerifyFailure"
    by (simp add: get_verify_def findOne_def example_env_def connected_empty_def)
  from apply_without_phone [OF h, of no_files] obtain d st' where
    "post_apply example_env connected_empty ?b no_files
           = (Res 200 (ApplicationStored (Oid ''6543210000000000000000a1'') ''TSRTC-55000000''
                         ''data:image/png;base64,TSRTC-55000000''), st')"
    "applications st' = Some [(Oid ''6543210000000000000000a1'', d)]"
    "phone d = Str []" "whatsapp d = Str []" "number d = Str []"
    "get_verify example_env st' ''9000000001'' = get_verify example_env connected_empty ''9000000001''"
    unfolding g b by auto
  with v have "\<exists>d st'. post_apply example_env connected_empty ?b no_files
           = (Res 200 (ApplicationStored (Oid ''6543210000000000000000a1'') ''TSRTC-55000000''
                         ''data:image/png;base64,TSRTC-55000000''), st')
          \<and> applications st' = Some [(Oid ''6543210000000000000000a1'', d)]
          \<and> phone d = Str [] \<and> whatsapp d = Str [] \<and> number d = Str []
          \<and> get_verify example_env st' ''9000000001'' = Res 200 VerifyFailure"
    by auto
  with h show ?thesis by simp
qed

section \<open>Lookup after issuance\<close>

lemma serve_applications:
  assumes "applications st = Some apps"
  shows "\<exists>more. applications (serve r st) = Some (apps @ more)"
proof (cases r)
  case (Pair e q)
  show ?thesis
  proof (cases q)
    case (Apply b f)
    with Pair assms show ?thesis
      by (auto simp: post_apply_def insertOne_def Let_def split: option.splits)
  next
    case (BookTicket b)
    with Pair assms show ?thesis
      by (auto simp: post_bookTicket_def insertOne_def split: option.splits)
  qed
qed

lemma run_applications:
  "applications st = Some apps \<Longrightarrow> \<exists>more. applications (run rs st) = Some (apps @ more)"
proof (induction rs arbitrary: st apps)
  case Nil
  then show ?case by (simp add: run_def)
next
  case (Cons r rs)
  from serve_applications [OF Cons.prems] obtain m1 where
    "applications (serve r st) = Some (apps @ m1)" by blast
  from Cons.IH [OF this] obtain m2 where
    "applications (run rs (serve r st)) = Some ((apps @ m1) @ m2)" by blast
  then show ?case by (auto simp: run_def)
qed

text \<open>
  Claim C5, as the code has it. The generator draws a pass identifier without looking at
  the store. When no applicant stored before carries the identifier an issuance drew,
  a lookup by that identifier, after any further requests, returns the record of that
  issuance, under the record reference the issuance returned.
\<close>

theorem getApplicant_after_apply:
  assumes "post_apply e st b f = (Res 200 (ApplicationStored rid pid qr), st')"
    and "\<forall>apps. applications st = Some apps \<longrightarrow> (\<forall>d\<in>set apps. passId (snd d) \<noteq> pid)"
    and "store_up e'"
  shows "get_getApplicant e' (run rs st') pid
           = Res 200 (Applicant (rid, applicant_doc e b f pid qr))
       \<and> passId (applicant_doc e b f pid qr) = pid
       \<and> qrCode (applicant_doc e b f pid qr) = qr"
proof -
  let ?d = "applicant_doc e b f pid qr"
  let ?q = "\<lambda>d. passId (snd d) = pid"
  from apply_Stored [OF assms(1)] obtain apps where
    apps: "applications st = Some apps" and
    st': "st' = st\<lparr>applications := Some (apps @ [(rid, ?d)])\<rparr>"
    by blast
  from st' have "applications st' = Some (apps @ [(rid, ?d)])" by simp
  from run_applications [OF this] obtain more where
    more: "applications (run rs st') = Some ((apps @ [(rid, ?d)]) @ more)" by blast
  from assms(2) apps have "\<forall>x\<in>set apps. \<not> ?q x" by simp
  then have "find ?q (apps @ [(rid, ?d)]) = find ?q [(rid, ?d)]"
    by (rule find_append_none)
  then have "find ?q (apps @ [(rid, ?d)]) = Some (rid, ?d)"
    by (simp add: applicant_doc_passId)
  then have "find ?q ((apps @ [(rid, ?d)]) @ more) = Some (rid, ?d)"
    by (rule find_append_some)
  with more assms(3) have "get_getApplicant e' (run rs st') pid = Res 200 (Applicant (rid, ?d))"
    by (simp add: get_getApplicant_def findOne_def)
  then show ?thesis
    by (simp add: applicant_doc_def Let_def)
qed

lemma first_apply:
  "post_apply example_env connected_empty first_body no_files
       = (Res 200 (ApplicationStored (Oid ''6543210000000000000000a1'') ''TSRTC-55000000''
                     ''data:image/png;base64,TSRTC-55000000''), one_applicant)"
  by (simp add: one_applicant_def)
    (simp add: post_apply_def insertOne_def example_env_def connected_empty_def
      example_passId Let_def)

theorem getApplicant_after_apply_witness:
  "post_apply example_env connected_empty first_body no_files
       = (Res 200 (ApplicationStored (Oid ''6543210000000000000000a1'') ''TSRTC-55000000''
                     ''data:image/png;base64,TSRTC-55000000''), one_applicant)
   \<and> applications connected_empty = Some []
   \<and> store_up example_env
   \<and> get_getApplicant example_env
        (run [(second_env, BookTicket (body_of [(''source'', Str ''A'')]))] one_applicant)
        ''TSRTC-55000000''
       = Res 200 (Applicant (Oid ''6543210000000000000000a1'',
           applicant_doc example_env first_body no_files ''TSRTC-55000000''
             ''data:image/png;base64,TSRTC-55000000''))"
proof -
  have h2: "\<forall>apps. applications connected_empty = Some apps \<longrightarrow>
      (\<forall>d\<in>set apps. passId (snd d) \<noteq> ''TSRTC-55000000'')"
    by (simp add: connected_empty_def)
  have h3: "store_up example_env"
    by (simp add: example_env_def)
  from getApplicant_after_apply [OF first_apply h2 h3] first_apply h3
  show ?thesis by (auto simp: connected_empty_def)
qed

theorem getApplicant_collision_counterexample:
  "post_apply example_env connected_empty first_body no_files
       = (Res 200 (ApplicationStored (Oid ''6543210000000000000000a1'') ''TSRTC-55000000''
                     ''data:image/png;base64,TSRTC-55000000''), one_applicant)
   \<and> fst (post_apply second_env one_applicant (body_of [(''name'', Str ''Saraswati'')]) no_files)
       = Res 200 (ApplicationStored (Oid ''6543210000000000000000a2'') ''TSRTC-55000000''
                     ''data:image/png;base64,TSRTC-55000000'')
   \<and> get_getApplicant example_env
        (snd (post_apply second_env one_applicant (body_of [(''name'', Str ''Saraswati'')]) no_files))
        ''TSRTC-55000000''
       = Res 200 (Applicant (Oid ''6543210000000000000000a1'',
           applicant_doc example_env first_body no_files ''TSRTC-55000000''
             ''data:image/png;base64,TSRTC-55000000''))
   \<and> name (applicant_doc example_env first_body no_files ''TSRTC-55000000''
             ''data:image/png;base64,TSRTC-55000000'') = Str ''Lakshmi''
   \<and> Oid ''6543210000000000000000a1'' \<noteq> Oid ''6543210000000000000000a2''"
proof -
  let ?b2 = "body_of [(''name'', Str ''Saraswati'')]"
  let ?d1 = "applicant_doc example_env first_body no_files ''TSRTC-55000000''
             ''data:image/png;base64,TSRTC-55000000''"
  let ?d2 = "applicant_doc second_env ?b2 no_files ''TSRTC-55000000''
             ''data:image/png;base64,TSRTC-55000000''"
  have s: "random second_env = 1 / 2" "store_up second_env"
    "generated_id second_env = Oid ''6543210000000000000000a2''"
    "toDataURL second_env ''TSRTC-55000000'' = Some ''data:image/png;base64,TSRTC-55000000''"
    by (simp_all add: second_env_def example_env_def)
  have a: "applications one_applicant = Some [(Oid ''6543210000000000000000a1'', ?d1)]"
    by (simp add: one_applicant_eq)
  have r2: "post_apply second_env one_applicant ?b2 no_files
      = (Res 200 (ApplicationStored (Oid ''6543210000000000000000a2'') ''TSRTC-55000000''
                     ''data:image/png;base64,TSRTC-55000000''),
         one_applicant\<lparr>applications := Some ([(Oid ''6543210000000000000000a1'', ?d1)]
             @ [(Oid ''6543210000000000000000a2'', ?d2)])\<rparr>)"
    using apply_succeeds [of one_applicant _ second_env _ ?b2 no_files, OF a]
    by (simp add: s example_passId)
  have g: "get_getApplicant example_env
        (snd (post_apply second_env one_applicant ?b2 no_files)) ''TSRTC-55000000''
       = Res 200 (Applicant (Oid ''6543210000000000000000a1'', ?d1))"
    unfolding r2
    by (simp add: get_getApplicant_def findOne_def applicant_doc_passId example_env_def)
  have n: "name ?d1 = Str ''Lakshmi''"
    by (simp add: applicant_doc_def Let_def first_body_def body_of_def)
  from first_apply r2 g n show ?thesis by simp
qed

end
